theory Spec2Isabelle
  imports Main "HOL-Library.AList"
begin

section \<open>Python values and exceptions\<close>

text \<open>
  The functions of \<^verbatim>\<open>rev_comp.py\<close> take arbitrary Python objects. The values modelled
  are those of the built-in types below; a \<^verbatim>\<open>str\<close> is the list of its characters, and a
  character is a \<open>char\<close> of HOL (code points 0 to 255).
\<close>

datatype pyval =
    PyNone
  | PyBool bool
  | PyInt int
  | PyStr string
  | PyList "pyval list"
  | PyTuple "pyval list"

text \<open>\<^verbatim>\<open>type(v).__name__\<close>\<close>

fun type_name :: "pyval \<Rightarrow> string" where
  "type_name PyNone = ''NoneType''"
| "type_name (PyBool b) = ''bool''"
| "type_name (PyInt i) = ''int''"
| "type_name (PyStr s) = ''str''"
| "type_name (PyList xs) = ''list''"
| "type_name (PyTuple xs) = ''tuple''"

text \<open>
  The exception classes: the built-in ones that the module can meet, and the two that the
  module declares, \<^verbatim>\<open>class Error(Exception)\<close> and \<^verbatim>\<open>class DnaSequenceError(Error)\<close>.
  \<open>mro\<close> lists a class followed by its ancestors, and \<open>issubclass\<close> is Python's.
\<close>

datatype exc_class =
    BaseException
  | Exception
  | LookupError
  | KeyError
  | TypeError
  | ValueError
  | Error
  | DnaSequenceError

fun mro :: "exc_class \<Rightarrow> exc_class list" where
  "mro BaseException = [BaseException]"
| "mro Exception = [Exception, BaseException]"
| "mro LookupError = [LookupError, Exception, BaseException]"
| "mro KeyError = [KeyError, LookupError, Exception, BaseException]"
| "mro TypeError = [TypeError, Exception, BaseException]"
| "mro ValueError = [ValueError, Exception, BaseException]"
| "mro Error = [Error, Exception, BaseException]"
| "mro DnaSequenceError = [DnaSequenceError, Error, Exception, BaseException]"

definition issubclass :: "exc_class \<Rightarrow> exc_class \<Rightarrow> bool" where
  "issubclass c d = (d \<in> set (mro c))"

text \<open>A raised exception: its class and its message.\<close>

datatype exn = Exn (exn_class: exc_class) (message: string)

section \<open>Built-in string operations\<close>

text \<open>The apostrophe, which the messages of the module contain.\<close>

definition apostrophe :: char where
  "apostrophe = CHR 0x27"

text \<open>
  \<^verbatim>\<open>str.upper\<close>: the letters \<^verbatim>\<open>a\<close> to \<^verbatim>\<open>z\<close> (code points 97 to 122) move down by 32.
  Every other character is left as it is; Python changes some characters beyond ASCII, but
  none of them to \<^verbatim>\<open>A\<close>, \<^verbatim>\<open>G\<close>, \<^verbatim>\<open>C\<close> or \<^verbatim>\<open>T\<close>, which is all the module asks of them.
\<close>

definition upper_char :: "char \<Rightarrow> char" where
  "upper_char c =
     (let n = (of_char c :: nat) in if 97 \<le> n \<and> n \<le> 122 then char_of (n - 32) else c)"

definition upper :: "string \<Rightarrow> string" where
  "upper s = map upper_char s"

text \<open>\<^verbatim>\<open>str(n)\<close> for an integer: its decimal digits, after a minus sign when negative.\<close>

definition digit_char :: "nat \<Rightarrow> char" where
  "digit_char d = ''0123456789'' ! (d mod 10)"

fun str_nat :: "nat \<Rightarrow> string" where
  "str_nat n = (if n < 10 then [digit_char n] else str_nat (n div 10) @ [digit_char n])"

declare str_nat.simps [simp del]

definition str_int :: "int \<Rightarrow> string" where
  "str_int i = (if i < 0 then CHR ''-'' # str_nat (nat (- i)) else str_nat (nat i))"

section \<open>The valid bases\<close>

text \<open>
  \<^verbatim>\<open>get_valid_bases\<close> returns a list of one-character strings or a dict from strings to
  strings. A dict is an association list in insertion order; \<^verbatim>\<open>dict(pairs)\<close> inserts the
  pairs from left to right, a later pair of the same key replacing the value in place.
\<close>

datatype bases_value =
    BasesList "string list"
  | BaseComplements "(string \<times> string) list"

definition dict :: "('k \<times> 'v) list \<Rightarrow> ('k \<times> 'v) list" where
  "dict pairs = fold (\<lambda>(k, v). AList.update k v) pairs []"

text \<open>
  The argument is \<open>None\<close> when the caller leaves it out, and the parameter then takes its
  default \<^verbatim>\<open>"bases_only"\<close>. A value of the types above equals a \<^verbatim>\<open>str\<close> under \<^verbatim>\<open>==\<close>
  exactly if it is that \<^verbatim>\<open>str\<close>.
\<close>

definition get_valid_bases :: "pyval option \<Rightarrow> exn + bases_value" where
  "get_valid_bases arg =
     (let return_values = (case arg of None \<Rightarrow> PyStr ''bases_only'' | Some v \<Rightarrow> v);
          valid_bases = [''A'', ''G'', ''C'', ''T'']
      in if return_values = PyStr ''bases_only'' then Inr (BasesList valid_bases)
         else if return_values = PyStr ''base_complements''
         then Inr (BaseComplements (dict (zip valid_bases (rev valid_bases))))
         else Inl (Exn ValueError
                (''return_values must be either 'bases_only' or '' @
                 [apostrophe] @ ''base_complements'' @ [apostrophe])))"

text \<open>\<^verbatim>\<open>x in bases\<close>: membership in the list, or among the keys of the dict.\<close>

fun contains :: "bases_value \<Rightarrow> string \<Rightarrow> bool" where
  "contains (BasesList l) x = (x \<in> set l)"
| "contains (BaseComplements d) x = (x \<in> set (map fst d))"

text \<open>
  \<^verbatim>\<open>bases[key]\<close>: the value of the key in the dict, \<^verbatim>\<open>KeyError(key)\<close> when it has none;
  a list takes no string as an index.
\<close>

fun getitem :: "bases_value \<Rightarrow> string \<Rightarrow> exn + string" where
  "getitem (BaseComplements d) key =
     (case map_of d key of None \<Rightarrow> Inl (Exn KeyError key) | Some v \<Rightarrow> Inr v)"
| "getitem (BasesList l) key =
     Inl (Exn TypeError ''list indices must be integers or slices, not str'')"

section \<open>Validation\<close>

text \<open>
  \<^verbatim>\<open>_validate_base(base, position)\<close>; \<open>base\<close> is a string of one character, as the loop of
  \<^verbatim>\<open>validate_dna_sequence\<close> passes it.
\<close>

definition validate_base :: "string \<Rightarrow> int \<Rightarrow> exn + unit" where
  "validate_base base position =
     (case get_valid_bases None of
        Inl e \<Rightarrow> Inl e
      | Inr bases \<Rightarrow>
          if \<not> contains bases (upper base)
          then Inl (Exn DnaSequenceError
                 (''invalid base '' @ [apostrophe] @ base @ [apostrophe] @ '' found at '' @
                  ''sequence position '' @ str_int position))
          else Inr ())"

text \<open>\<^verbatim>\<open>_validate_type(dna_sequence)\<close>\<close>

definition validate_type :: "pyval \<Rightarrow> exn + unit" where
  "validate_type dna_sequence =
     (let sequence_type = type_name dna_sequence
      in if sequence_type \<noteq> ''str''
         then Inl (Exn DnaSequenceError (''invalid sequence type ('' @ sequence_type @ '')''))
         else Inr ())"

text \<open>
  The loop of \<^verbatim>\<open>validate_dna_sequence\<close> over the characters that remain, \<open>position\<close>
  being the counter before the next increment.
\<close>

fun validate_loop :: "int \<Rightarrow> string \<Rightarrow> exn + unit" where
  "validate_loop position [] = Inr ()"
| "validate_loop position (base # rest) =
     (let position = position + 1
      in case validate_base [base] position of
           Inl e \<Rightarrow> Inl e
         | Inr _ \<Rightarrow> validate_loop position rest)"

text \<open>
  \<^verbatim>\<open>validate_dna_sequence(dna_sequence)\<close>. Only a \<^verbatim>\<open>str\<close> passes \<open>validate_type\<close>, so the
  loop runs over a \<^verbatim>\<open>str\<close>; the last branch (the \<^verbatim>\<open>for\<close> statement over another value)
  is never reached.
\<close>

definition validate_dna_sequence :: "pyval \<Rightarrow> exn + unit" where
  "validate_dna_sequence dna_sequence =
     (case validate_type dna_sequence of
        Inl e \<Rightarrow> Inl e
      | Inr _ \<Rightarrow>
          (case dna_sequence of
             PyStr s \<Rightarrow> validate_loop 0 s
           | _ \<Rightarrow> Inl (Exn TypeError (type_name dna_sequence))))"

section \<open>The reverse complement\<close>

text \<open>
  \<^verbatim>\<open>"".join(complements[base.upper()] for base in bases)\<close>: the lookups run from left to
  right, and the first one that raises ends the join.
\<close>

fun join_complements :: "bases_value \<Rightarrow> string \<Rightarrow> exn + string" where
  "join_complements complements [] = Inr []"
| "join_complements complements (base # rest) =
     (case getitem complements (upper [base]) of
        Inl e \<Rightarrow> Inl e
      | Inr c \<Rightarrow>
          (case join_complements complements rest of
             Inl e \<Rightarrow> Inl e
           | Inr r \<Rightarrow> Inr (c @ r)))"

text \<open>
  \<^verbatim>\<open>get_reverse_complement(dna_sequence)\<close>; \<^verbatim>\<open>dna_sequence[::-1]\<close> is \<open>rev\<close>. As above,
  the last branch is never reached.
\<close>

definition get_reverse_complement :: "pyval \<Rightarrow> exn + string" where
  "get_reverse_complement dna_sequence =
     (case get_valid_bases (Some (PyStr ''base_complements'')) of
        Inl e \<Rightarrow> Inl e
      | Inr complements \<Rightarrow>
          (case validate_dna_sequence dna_sequence of
             Inl e \<Rightarrow> Inl e
           | Inr _ \<Rightarrow>
               (case dna_sequence of
                  PyStr s \<Rightarrow> join_complements complements (rev s)
                | _ \<Rightarrow> Inl (Exn TypeError (type_name dna_sequence)))))"

section \<open>The notions of the specification\<close>

text \<open>
  A valid base is one of \<^verbatim>\<open>A\<close>, \<^verbatim>\<open>G\<close>, \<^verbatim>\<open>C\<close>, \<^verbatim>\<open>T\<close> in either case, and a valid
  sequence is a string of valid bases.
\<close>

definition is_valid_base :: "char \<Rightarrow> bool" where
  "is_valid_base c = (c \<in> set ''AGCTagct'')"

definition is_valid_sequence :: "string \<Rightarrow> bool" where
  "is_valid_sequence s = list_all is_valid_base s"

text \<open>The Watson-Crick complement of an uppercase base.\<close>

fun watson_crick :: "char \<Rightarrow> char" where
  "watson_crick c =
     (if c = CHR ''A'' then CHR ''T''
      else if c = CHR ''T'' then CHR ''A''
      else if c = CHR ''G'' then CHR ''C''
      else if c = CHR ''C'' then CHR ''G''
      else c)"

text \<open>
  The reverse complement in the words of the specification: reverse the sequence,
  uppercase each base, replace each base by its complement.
\<close>

definition spec_reverse_complement :: "string \<Rightarrow> string" where
  "spec_reverse_complement s = map watson_crick (map upper_char (rev s))"

text \<open>The message of the failure at an invalid base \<open>c\<close> found at a position.\<close>

definition invalid_base_message :: "char \<Rightarrow> int \<Rightarrow> string" where
  "invalid_base_message c position =
     ''invalid base '' @ [apostrophe] @ [c] @ [apostrophe] @
     '' found at sequence position '' @ str_int position"

section \<open>Uppercasing and the valid bases\<close>

lemma of_char_upper_char:
  "(of_char (upper_char c) :: nat) =
     (if 97 \<le> (of_char c :: nat) \<and> (of_char c :: nat) \<le> 122 then of_char c - 32 else of_char c)"
  by (auto simp add: upper_char_def Let_def)

lemma char_eq_code: "c = d \<longleftrightarrow> (of_char c :: nat) = of_char d"
  by simp

lemma upper_char_A: "upper_char c = CHR ''A'' \<longleftrightarrow> c = CHR ''A'' \<or> c = CHR ''a''"
  unfolding char_eq_code [of _ "CHR ''A''"] char_eq_code [of _ "CHR ''a''"] of_char_upper_char
  by (simp; arith)

lemma upper_char_G: "upper_char c = CHR ''G'' \<longleftrightarrow> c = CHR ''G'' \<or> c = CHR ''g''"
  unfolding char_eq_code [of _ "CHR ''G''"] char_eq_code [of _ "CHR ''g''"] of_char_upper_char
  by (simp; arith)

lemma upper_char_C: "upper_char c = CHR ''C'' \<longleftrightarrow> c = CHR ''C'' \<or> c = CHR ''c''"
  unfolding char_eq_code [of _ "CHR ''C''"] char_eq_code [of _ "CHR ''c''"] of_char_upper_char
  by (simp; arith)

lemma upper_char_T: "upper_char c = CHR ''T'' \<longleftrightarrow> c = CHR ''T'' \<or> c = CHR ''t''"
  unfolding char_eq_code [of _ "CHR ''T''"] char_eq_code [of _ "CHR ''t''"] of_char_upper_char
  by (simp; arith)

lemmas upper_char_base = upper_char_A upper_char_G upper_char_C upper_char_T

lemma upper_char_simps:
  "upper_char (CHR ''A'') = CHR ''A''" "upper_char (CHR ''a'') = CHR ''A''"
  "upper_char (CHR ''G'') = CHR ''G''" "upper_char (CHR ''g'') = CHR ''G''"
  "upper_char (CHR ''C'') = CHR ''C''" "upper_char (CHR ''c'') = CHR ''C''"
  "upper_char (CHR ''T'') = CHR ''T''" "upper_char (CHR ''t'') = CHR ''T''"
  by (simp_all add: upper_char_base)

lemma is_valid_sequence_rev: "is_valid_sequence (rev s) = is_valid_sequence s"
  by (simp add: is_valid_sequence_def list_all_iff)

section \<open>Facts about the functions of the module\<close>

lemma get_valid_bases_default:
  "get_valid_bases None = Inr (BasesList [''A'', ''G'', ''C'', ''T''])"
  by (simp add: get_valid_bases_def)

lemma get_valid_bases_complements:
  "get_valid_bases (Some (PyStr ''base_complements'')) =
     Inr (BaseComplements [(''A'', ''T''), (''G'', ''C''), (''C'', ''G''), (''T'', ''A'')])"
  by (simp add: get_valid_bases_def dict_def)

lemma upper_in_bases:
  "upper [c] \<in> set [''A'', ''G'', ''C'', ''T''] \<longleftrightarrow> is_valid_base c"
  by (auto simp add: upper_def is_valid_base_def upper_char_base)

lemma validate_base_eq:
  "validate_base [c] position =
     (if is_valid_base c then Inr ()
      else Inl (Exn DnaSequenceError (invalid_base_message c position)))"
  using upper_in_bases [of c]
  by (simp add: validate_base_def get_valid_bases_default invalid_base_message_def
      del: set_simps)

lemma validate_loop_valid:
  "is_valid_sequence s \<Longrightarrow> validate_loop position s = Inr ()"
  by (induction s arbitrary: position)
    (simp_all add: is_valid_sequence_def validate_base_eq)

lemma validate_loop_invalid:
  "is_valid_sequence pre \<Longrightarrow> \<not> is_valid_base c \<Longrightarrow>
   validate_loop position (pre @ c # post) =
     Inl (Exn DnaSequenceError (invalid_base_message c (position + int (length pre) + 1)))"
proof (induction pre arbitrary: position)
  case Nil
  then show ?case by (simp add: validate_base_eq)
next
  case (Cons b pre)
  from Cons.prems have "is_valid_base b" "is_valid_sequence pre"
    by (simp_all add: is_valid_sequence_def)
  with Cons.IH [of "position + 1"] Cons.prems(2) show ?case
    by (simp add: validate_base_eq add.assoc add.commute)
qed

lemma validate_loop_Inr:
  "validate_loop position s = Inr () \<Longrightarrow> is_valid_sequence s"
  by (induction s arbitrary: position)
    (auto simp add: is_valid_sequence_def validate_base_eq Let_def split: if_splits)

lemma validate_loop_Inl:
  "validate_loop position s = Inl e \<Longrightarrow> exn_class e = DnaSequenceError"
  by (induction s arbitrary: position)
    (auto simp add: validate_base_eq Let_def split: if_splits)

lemma getitem_complements:
  "is_valid_base c \<Longrightarrow>
   getitem (BaseComplements [(''A'', ''T''), (''G'', ''C''), (''C'', ''G''), (''T'', ''A'')])
     (upper [c]) = Inr [watson_crick (upper_char c)]"
  by (auto simp add: is_valid_base_def upper_def upper_char_simps)

lemma join_complements_valid:
  "is_valid_sequence s \<Longrightarrow>
   join_complements
     (BaseComplements [(''A'', ''T''), (''G'', ''C''), (''C'', ''G''), (''T'', ''A'')]) s =
   Inr (map watson_crick (map upper_char s))"
  by (induction s) (simp_all add: is_valid_sequence_def getitem_complements del: getitem.simps watson_crick.simps)


lemma validate_type_eq:
  "validate_type v =
     (case v of PyStr s \<Rightarrow> Inr ()
      | _ \<Rightarrow> Inl (Exn DnaSequenceError (''invalid sequence type ('' @ type_name v @ '')'')))"
  by (cases v) (simp_all add: validate_type_def)

text \<open>Only a \<^verbatim>\<open>str\<close> passes the type check, so the loops run over strings only.\<close>

lemma validate_type_Inr: "validate_type v = Inr () \<Longrightarrow> \<exists>s. v = PyStr s"
  by (cases v) (simp_all add: validate_type_eq)

lemma validate_dna_sequence_str:
  "validate_dna_sequence (PyStr s) = validate_loop 0 s"
  by (simp add: validate_dna_sequence_def validate_type_eq)

lemma validate_dna_sequence_other:
  "type_name v \<noteq> ''str'' \<Longrightarrow>
   validate_dna_sequence v =
     Inl (Exn DnaSequenceError (''invalid sequence type ('' @ type_name v @ '')''))"
  by (cases v) (simp_all add: validate_dna_sequence_def validate_type_eq)

lemma get_reverse_complement_str:
  "get_reverse_complement (PyStr s) =
     (case validate_loop 0 s of
        Inl e \<Rightarrow> Inl e
      | Inr _ \<Rightarrow> join_complements
          (BaseComplements [(''A'', ''T''), (''G'', ''C''), (''C'', ''G''), (''T'', ''A'')])
          (rev s))"
  by (simp add: get_reverse_complement_def get_valid_bases_complements
      validate_dna_sequence_str split: sum.splits)

lemma get_reverse_complement_valid:
  "is_valid_sequence s \<Longrightarrow>
   get_reverse_complement (PyStr s) = Inr (map watson_crick (map upper_char (rev s)))"
  by (simp add: get_reverse_complement_str validate_loop_valid join_complements_valid
      is_valid_sequence_def del: watson_crick.simps)

lemma get_reverse_complement_fails:
  "validate_dna_sequence v = Inl e \<Longrightarrow> get_reverse_complement v = Inl e"
  by (simp add: get_reverse_complement_def get_valid_bases_complements)

lemma get_reverse_complement_Inl:
  "get_reverse_complement v = Inl e \<Longrightarrow> validate_dna_sequence v = Inl e"
proof (cases v)
  case (PyStr s)
  assume "get_reverse_complement v = Inl e"
  then show ?thesis
    unfolding PyStr get_reverse_complement_str validate_dna_sequence_str
    by (cases "validate_loop 0 s")
      (auto simp add: join_complements_valid is_valid_sequence_rev dest: validate_loop_Inr
        simp del: watson_crick.simps)
qed (simp_all add: get_reverse_complement_def get_valid_bases_complements
    validate_dna_sequence_def validate_type_eq)

lemma complement_twice:
  "is_valid_base c \<Longrightarrow> watson_crick (upper_char (watson_crick (upper_char c))) = upper_char c"
  by (auto simp add: is_valid_base_def upper_char_simps)

lemma complement_valid:
  "is_valid_base c \<Longrightarrow> watson_crick (upper_char c) \<in> set ''AGCT''"
  by (auto simp add: is_valid_base_def upper_char_simps)

lemma reverse_complement_valid:
  "is_valid_sequence s \<Longrightarrow> is_valid_sequence (map watson_crick (map upper_char (rev s)))"
  using complement_valid
  by (auto simp add: is_valid_sequence_def list_all_iff is_valid_base_def
      simp del: watson_crick.simps)

lemma validate_dna_sequence_Inl:
  "validate_dna_sequence v = Inl e \<Longrightarrow> exn_class e = DnaSequenceError"
proof (cases v)
  case (PyStr s)
  assume "validate_dna_sequence v = Inl e"
  then show ?thesis
    unfolding PyStr validate_dna_sequence_str by (rule validate_loop_Inl)
qed (auto simp add: validate_dna_sequence_def validate_type_eq)

section \<open>Claims\<close>

text \<open>
  C1: for every input string whose characters are all valid bases in either case,
  \<open>get_reverse_complement\<close> returns the input reversed, uppercased and with each base
  replaced by its Watson-Crick complement; the reverse complements of \<^verbatim>\<open>AGCT\<close>,
  \<^verbatim>\<open>AAAA\<close> and \<^verbatim>\<open>GGCC\<close> are \<^verbatim>\<open>AGCT\<close>, \<^verbatim>\<open>TTTT\<close> and \<^verbatim>\<open>GGCC\<close>.
\<close>

theorem get_reverse_complement_correct:
  "(is_valid_sequence s \<longrightarrow>
      get_reverse_complement (PyStr s) = Inr (spec_reverse_complement s)) \<and>
   get_reverse_complement (PyStr ''AGCT'') = Inr ''AGCT'' \<and>
   get_reverse_complement (PyStr ''AAAA'') = Inr ''TTTT'' \<and>
   get_reverse_complement (PyStr ''GGCC'') = Inr ''GGCC''"
proof -
  have general: "is_valid_sequence s \<longrightarrow>
      get_reverse_complement (PyStr s) = Inr (spec_reverse_complement s)"
    by (simp add: get_reverse_complement_valid spec_reverse_complement_def
        del: watson_crick.simps)
  have "get_reverse_complement (PyStr ''AGCT'') = Inr ''AGCT''"
    by code_simp
  moreover have "get_reverse_complement (PyStr ''AAAA'') = Inr ''TTTT''"
    by code_simp
  moreover have "get_reverse_complement (PyStr ''GGCC'') = Inr ''GGCC''"
    by code_simp
  ultimately show ?thesis using general by simp
qed

theorem get_reverse_complement_correct_witness:
  "is_valid_sequence ''aGCt'' \<and>
   get_reverse_complement (PyStr ''aGCt'') = Inr (spec_reverse_complement ''aGCt'') \<and>
   spec_reverse_complement ''aGCt'' = ''AGCT''"
  using get_reverse_complement_correct [of "''aGCt''"]
  by (simp add: is_valid_sequence_def is_valid_base_def spec_reverse_complement_def
      upper_char_simps)

text \<open>
  C2: \<open>validate_dna_sequence\<close> checks the type first: every value that is not a \<^verbatim>\<open>str\<close>
  fails with the type error that names its type (\<^verbatim>\<open>int\<close> for 1234), whatever it
  holds. A \<^verbatim>\<open>str\<close> is scanned from the left: when its first invalid base is \<open>c\<close>, after
  the valid bases \<open>pre\<close>, the failure reports \<open>c\<close> as written and the 1-based position
  \<open>length pre + 1\<close>, whatever follows \<open>c\<close>. The call succeeds exactly on the valid
  sequences. \<^verbatim>\<open>2GCT\<close> fails at position 1 and \<^verbatim>\<open>AGCU\<close> at position 4.
\<close>

theorem validate_dna_sequence_behaviour:
  "(type_name dna_sequence \<noteq> ''str'' \<longrightarrow>
      validate_dna_sequence dna_sequence =
        Inl (Exn DnaSequenceError
          (''invalid sequence type ('' @ type_name dna_sequence @ '')''))) \<and>
   validate_dna_sequence (PyInt 1234) =
     Inl (Exn DnaSequenceError ''invalid sequence type (int)'') \<and>
   (is_valid_sequence pre \<and> \<not> is_valid_base c \<longrightarrow>
      validate_dna_sequence (PyStr (pre @ c # post)) =
        Inl (Exn DnaSequenceError
          (''invalid base '' @ [apostrophe, c, apostrophe] @
           '' found at sequence position '' @ str_int (int (length pre) + 1)))) \<and>
   (validate_dna_sequence (PyStr s) = Inr () \<longleftrightarrow> is_valid_sequence s) \<and>
   validate_dna_sequence (PyStr ''2GCT'') =
     Inl (Exn DnaSequenceError ''invalid base '2' found at sequence position 1'') \<and>
   validate_dna_sequence (PyStr ''AGCU'') =
     Inl (Exn DnaSequenceError ''invalid base 'U' found at sequence position 4'')"
proof -
  have type_first: "type_name dna_sequence \<noteq> ''str'' \<longrightarrow>
      validate_dna_sequence dna_sequence =
        Inl (Exn DnaSequenceError
          (''invalid sequence type ('' @ type_name dna_sequence @ '')''))"
    by (simp add: validate_dna_sequence_other)
  have int_example: "validate_dna_sequence (PyInt 1234) =
     Inl (Exn DnaSequenceError ''invalid sequence type (int)'')"
    by (simp add: validate_dna_sequence_other)
  have first_invalid: "is_valid_sequence pre \<and> \<not> is_valid_base c \<longrightarrow>
      validate_dna_sequence (PyStr (pre @ c # post)) =
        Inl (Exn DnaSequenceError
          (''invalid base '' @ [apostrophe, c, apostrophe] @
           '' found at sequence position '' @ str_int (int (length pre) + 1)))"
    using validate_loop_invalid [of pre c 0 post]
    by (simp add: validate_dna_sequence_str invalid_base_message_def)
  have success: "validate_dna_sequence (PyStr s) = Inr () \<longleftrightarrow> is_valid_sequence s"
    using validate_loop_valid [of s 0] validate_loop_Inr [of 0 s]
    by (auto simp add: validate_dna_sequence_str)
  have ex1: "validate_dna_sequence (PyStr ''2GCT'') =
     Inl (Exn DnaSequenceError ''invalid base '2' found at sequence position 1'')"
    by code_simp
  have ex4: "validate_dna_sequence (PyStr ''AGCU'') =
     Inl (Exn DnaSequenceError ''invalid base 'U' found at sequence position 4'')"
    by code_simp
  from type_first int_example first_invalid success ex1 ex4 show ?thesis
    by blast
qed

theorem validate_dna_sequence_behaviour_witness:
  "type_name (PyList [PyStr ''AGCU'']) \<noteq> ''str'' \<and>
   validate_dna_sequence (PyList [PyStr ''AGCU'']) =
     Inl (Exn DnaSequenceError ''invalid sequence type (list)'') \<and>
   is_valid_sequence ''aG'' \<and> \<not> is_valid_base (CHR ''U'') \<and>
   validate_dna_sequence (PyStr ''aGUx'') =
     Inl (Exn DnaSequenceError ''invalid base 'U' found at sequence position 3'') \<and>
   is_valid_sequence ''aGCT'' \<and>
   validate_dna_sequence (PyStr ''aGCT'') = Inr ()"
  using validate_dna_sequence_behaviour
    [of "PyList [PyStr ''AGCU'']" "''aG''" "CHR ''U''" "''x''" "''aGCT''"]
  by (simp add: is_valid_sequence_def is_valid_base_def apostrophe_def str_int_def
      str_nat.simps digit_char_def)

text \<open>
  C3: \<^verbatim>\<open>get_valid_bases("bases_only")\<close> returns the list of \<^verbatim>\<open>A\<close>, \<^verbatim>\<open>G\<close>, \<^verbatim>\<open>C\<close>, \<^verbatim>\<open>T\<close>;
  \<^verbatim>\<open>get_valid_bases("base_complements")\<close> returns the dict of \<^verbatim>\<open>A\<close> to \<^verbatim>\<open>T\<close>, \<^verbatim>\<open>G\<close> to
  \<^verbatim>\<open>C\<close>, \<^verbatim>\<open>C\<close> to \<^verbatim>\<open>G\<close>, \<^verbatim>\<open>T\<close> to \<^verbatim>\<open>A\<close>. The dict \<open>d\<close> that the call returns has four
  entries with distinct keys, the valid bases; it maps each valid base to another valid
  base, and it is its own inverse. Every other selector fails with a \<^verbatim>\<open>ValueError\<close>
  whose message names the two legal selectors.
\<close>

theorem get_valid_bases_modes:
  "get_valid_bases (Some (PyStr ''bases_only'')) =
     Inr (BasesList [''A'', ''G'', ''C'', ''T'']) \<and>
   get_valid_bases (Some (PyStr ''base_complements'')) =
     Inr (BaseComplements [(''A'', ''T''), (''G'', ''C''), (''C'', ''G''), (''T'', ''A'')]) \<and>
   (get_valid_bases (Some (PyStr ''base_complements'')) = Inr (BaseComplements d) \<longrightarrow>
      length d = 4 \<and> distinct (map fst d) \<and>
      set (map fst d) = set [''A'', ''G'', ''C'', ''T''] \<and>
      (k \<in> set [''A'', ''G'', ''C'', ''T''] \<longrightarrow>
         (\<exists>v. map_of d k = Some v \<and> v \<in> set [''A'', ''G'', ''C'', ''T''] \<and> v \<noteq> k)) \<and>
      (map_of d k = Some v \<longrightarrow> map_of d v = Some k)) \<and>
   (selector \<noteq> PyStr ''bases_only'' \<and> selector \<noteq> PyStr ''base_complements'' \<longrightarrow>
      get_valid_bases (Some selector) =
        Inl (Exn ValueError
          (''return_values must be either 'bases_only' or 'base_complements'' @
           [apostrophe])))"
proof -
  let ?table = "[(''A'', ''T''), (''G'', ''C''), (''C'', ''G''), (''T'', ''A'')]"
  have inverse: "map_of ?table k = Some v \<longrightarrow> map_of ?table v = Some k"
    by (auto split: if_splits)
  have image: "k \<in> set [''A'', ''G'', ''C'', ''T''] \<longrightarrow>
      (\<exists>v. map_of ?table k = Some v \<and> v \<in> set [''A'', ''G'', ''C'', ''T''] \<and> v \<noteq> k)"
    by auto
  have table: "get_valid_bases (Some (PyStr ''base_complements'')) = Inr (BaseComplements d) \<longrightarrow>
      length d = 4 \<and> distinct (map fst d) \<and>
      set (map fst d) = set [''A'', ''G'', ''C'', ''T''] \<and>
      (k \<in> set [''A'', ''G'', ''C'', ''T''] \<longrightarrow>
         (\<exists>v. map_of d k = Some v \<and> v \<in> set [''A'', ''G'', ''C'', ''T''] \<and> v \<noteq> k)) \<and>
      (map_of d k = Some v \<longrightarrow> map_of d v = Some k)"
  proof
    assume "get_valid_bases (Some (PyStr ''base_complements'')) = Inr (BaseComplements d)"
    then have d: "d = ?table"
      by (simp add: get_valid_bases_complements)
    show "length d = 4 \<and> distinct (map fst d) \<and>
      set (map fst d) = set [''A'', ''G'', ''C'', ''T''] \<and>
      (k \<in> set [''A'', ''G'', ''C'', ''T''] \<longrightarrow>
         (\<exists>v. map_of d k = Some v \<and> v \<in> set [''A'', ''G'', ''C'', ''T''] \<and> v \<noteq> k)) \<and>
      (map_of d k = Some v \<longrightarrow> map_of d v = Some k)"
      unfolding d using inverse image by simp
  qed
  have other: "selector \<noteq> PyStr ''bases_only'' \<and> selector \<noteq> PyStr ''base_complements'' \<longrightarrow>
      get_valid_bases (Some selector) =
        Inl (Exn ValueError
          (''return_values must be either 'bases_only' or 'base_complements'' @
           [apostrophe]))"
    by (simp add: get_valid_bases_def apostrophe_def)
  have "get_valid_bases (Some (PyStr ''bases_only'')) =
     Inr (BasesList [''A'', ''G'', ''C'', ''T''])"
    by (simp add: get_valid_bases_def)
  with get_valid_bases_complements table other show ?thesis
    by blast
qed

theorem get_valid_bases_modes_witness:
  "get_valid_bases (Some (PyStr ''base_complements'')) =
     Inr (BaseComplements [(''A'', ''T''), (''G'', ''C''), (''C'', ''G''), (''T'', ''A'')]) \<and>
   ''G'' \<in> set [''A'', ''G'', ''C'', ''T''] \<and>
   map_of [(''A'', ''T''), (''G'', ''C''), (''C'', ''G''), (''T'', ''A'')] ''G'' = Some ''C'' \<and>
   map_of [(''A'', ''T''), (''G'', ''C''), (''C'', ''G''), (''T'', ''A'')] ''C'' = Some ''G'' \<and>
   PyStr ''Whoops!'' \<noteq> PyStr ''bases_only'' \<and>
   PyStr ''Whoops!'' \<noteq> PyStr ''base_complements'' \<and>
   get_valid_bases (Some (PyStr ''Whoops!'')) =
     Inl (Exn ValueError
       (''return_values must be either 'bases_only' or 'base_complements'' @
        [apostrophe]))"
  using
    get_valid_bases_modes
      [of "[(''A'', ''T''), (''G'', ''C''), (''C'', ''G''), (''T'', ''A'')]" "''G''" "''C''"
        "PyStr ''Whoops!''"]
  by simp

text \<open>
  C4: for every valid sequence \<open>s\<close>, the reverse complement of the reverse complement of
  \<open>s\<close> is \<open>s\<close> in uppercase.
\<close>

theorem get_reverse_complement_twice:
  "is_valid_sequence s \<Longrightarrow>
   \<exists>r. get_reverse_complement (PyStr s) = Inr r \<and>
       get_reverse_complement (PyStr r) = Inr (upper s)"
proof -
  assume valid: "is_valid_sequence s"
  let ?r = "map watson_crick (map upper_char (rev s))"
  have first: "get_reverse_complement (PyStr s) = Inr ?r"
    using valid by (rule get_reverse_complement_valid)
  have "get_reverse_complement (PyStr ?r) =
      Inr (map watson_crick (map upper_char (rev ?r)))"
    using valid by (intro get_reverse_complement_valid reverse_complement_valid)
  also have "map watson_crick (map upper_char (rev ?r)) = upper s"
    using valid
    by (simp add: rev_map upper_def is_valid_sequence_def list_all_iff complement_twice
        del: watson_crick.simps)
  finally show ?thesis using first by blast
qed

theorem get_reverse_complement_twice_witness:
  "is_valid_sequence ''aaGc'' \<and>
   (\<exists>r. get_reverse_complement (PyStr ''aaGc'') = Inr r \<and>
        get_reverse_complement (PyStr r) = Inr ''AAGC'')"
  using get_reverse_complement_twice [of "''aaGc''"]
  by (simp add: is_valid_sequence_def is_valid_base_def upper_def upper_char_simps)

text \<open>
  C5: two valid sequences that are equal after uppercasing have the same reverse
  complement; \<^verbatim>\<open>aGCt\<close> and \<^verbatim>\<open>AGCT\<close> both give \<^verbatim>\<open>AGCT\<close>.
\<close>

theorem get_reverse_complement_ignores_case:
  "(is_valid_sequence s \<and> is_valid_sequence t \<and> upper s = upper t \<longrightarrow>
      get_reverse_complement (PyStr s) = get_reverse_complement (PyStr t)) \<and>
   get_reverse_complement (PyStr ''aGCt'') = Inr ''AGCT'' \<and>
   get_reverse_complement (PyStr ''AGCT'') = Inr ''AGCT''"
proof -
  have "get_reverse_complement (PyStr s) = get_reverse_complement (PyStr t)"
    if valid: "is_valid_sequence s" "is_valid_sequence t" and same: "upper s = upper t"
  proof -
    have "map upper_char (rev s) = map upper_char (rev t)"
      using same by (simp add: upper_def rev_map [symmetric])
    with valid show ?thesis
      by (simp add: get_reverse_complement_valid del: watson_crick.simps)
  qed
  moreover have "get_reverse_complement (PyStr ''aGCt'') = Inr ''AGCT''"
    by code_simp
  moreover have "get_reverse_complement (PyStr ''AGCT'') = Inr ''AGCT''"
    by code_simp
  ultimately show ?thesis by blast
qed

theorem get_reverse_complement_ignores_case_witness:
  "is_valid_sequence ''gattaca'' \<and> is_valid_sequence ''GAttaCA'' \<and>
   upper ''gattaca'' = upper ''GAttaCA'' \<and>
   get_reverse_complement (PyStr ''gattaca'') = get_reverse_complement (PyStr ''GAttaCA'')"
  using get_reverse_complement_ignores_case [of "''gattaca''" "''GAttaCA''"]
  by (simp add: is_valid_sequence_def is_valid_base_def upper_def upper_char_simps)

text \<open>
  C6: for every valid sequence \<open>s\<close>, \<open>get_reverse_complement\<close> returns a string of the
  length of \<open>s\<close>, each character of which is one of the uppercase bases \<^verbatim>\<open>A\<close>, \<^verbatim>\<open>G\<close>, \<^verbatim>\<open>C\<close>,
  \<^verbatim>\<open>T\<close>.
\<close>

theorem get_reverse_complement_shape:
  "is_valid_sequence s \<Longrightarrow>
   \<exists>r. get_reverse_complement (PyStr s) = Inr r \<and> length r = length s \<and>
       set r \<subseteq> set ''AGCT''"
proof -
  assume valid: "is_valid_sequence s"
  let ?r = "map watson_crick (map upper_char (rev s))"
  have "get_reverse_complement (PyStr s) = Inr ?r"
    using valid by (rule get_reverse_complement_valid)
  moreover have "length ?r = length s"
    by simp
  moreover have "set ?r \<subseteq> set ''AGCT''"
    using valid complement_valid
    by (auto simp add: is_valid_sequence_def list_all_iff simp del: watson_crick.simps)
  ultimately show ?thesis by blast
qed

theorem get_reverse_complement_shape_witness:
  "is_valid_sequence ''ttGaC'' \<and>
   (\<exists>r. get_reverse_complement (PyStr ''ttGaC'') = Inr r \<and> length r = length ''ttGaC'' \<and>
        set r \<subseteq> set ''AGCT'')"
  using get_reverse_complement_shape [of "''ttGaC''"]
  by (simp add: is_valid_sequence_def is_valid_base_def)

text \<open>
  C7: \<open>get_reverse_complement\<close> fails exactly when \<open>validate_dna_sequence\<close> fails, and
  with the same exception: the type error for a value that is not a \<^verbatim>\<open>str\<close>, and for a
  \<^verbatim>\<open>str\<close> whose first invalid base is \<open>c\<close>, after the valid bases \<open>pre\<close>, the base error
  with the position \<open>length pre + 1\<close> counted in the sequence as given, not reversed.
  The result is then the exception alone. \<^verbatim>\<open>AGCU\<close> fails at position 4, \<^verbatim>\<open>2GCT\<close> at
  position 1, and 1234 with the type error.
\<close>

theorem get_reverse_complement_failure:
  "(validate_dna_sequence v = Inl e \<longleftrightarrow> get_reverse_complement v = Inl e) \<and>
   (type_name v \<noteq> ''str'' \<longrightarrow>
      get_reverse_complement v =
        Inl (Exn DnaSequenceError (''invalid sequence type ('' @ type_name v @ '')''))) \<and>
   (is_valid_sequence pre \<and> \<not> is_valid_base c \<longrightarrow>
      get_reverse_complement (PyStr (pre @ c # post)) =
        Inl (Exn DnaSequenceError
          (''invalid base '' @ [apostrophe, c, apostrophe] @
           '' found at sequence position '' @ str_int (int (length pre) + 1)))) \<and>
   get_reverse_complement (PyStr ''AGCU'') =
     Inl (Exn DnaSequenceError ''invalid base 'U' found at sequence position 4'') \<and>
   get_reverse_complement (PyStr ''2GCT'') =
     Inl (Exn DnaSequenceError ''invalid base '2' found at sequence position 1'') \<and>
   get_reverse_complement (PyInt 1234) =
     Inl (Exn DnaSequenceError ''invalid sequence type (int)'')"
proof -
  have same: "validate_dna_sequence v = Inl e \<longleftrightarrow> get_reverse_complement v = Inl e"
    using get_reverse_complement_fails [of v e] get_reverse_complement_Inl [of v e]
    by blast
  have type_error: "type_name v \<noteq> ''str'' \<longrightarrow>
      get_reverse_complement v =
        Inl (Exn DnaSequenceError (''invalid sequence type ('' @ type_name v @ '')''))"
    by (simp add: get_reverse_complement_fails validate_dna_sequence_other)
  have base_error: "is_valid_sequence pre \<and> \<not> is_valid_base c \<longrightarrow>
      get_reverse_complement (PyStr (pre @ c # post)) =
        Inl (Exn DnaSequenceError
          (''invalid base '' @ [apostrophe, c, apostrophe] @
           '' found at sequence position '' @ str_int (int (length pre) + 1)))"
    using validate_loop_invalid [of pre c 0 post]
    by (simp add: get_reverse_complement_str invalid_base_message_def)
  have ex4: "get_reverse_complement (PyStr ''AGCU'') =
     Inl (Exn DnaSequenceError ''invalid base 'U' found at sequence position 4'')"
    by code_simp
  have ex1: "get_reverse_complement (PyStr ''2GCT'') =
     Inl (Exn DnaSequenceError ''invalid base '2' found at sequence position 1'')"
    by code_simp
  have ex_int: "get_reverse_complement (PyInt 1234) =
     Inl (Exn DnaSequenceError ''invalid sequence type (int)'')"
    by code_simp
  from same type_error base_error ex4 ex1 ex_int show ?thesis
    by blast
qed

theorem get_reverse_complement_failure_witness:
  "type_name PyNone \<noteq> ''str'' \<and>
   get_reverse_complement PyNone =
     Inl (Exn DnaSequenceError ''invalid sequence type (NoneType)'') \<and>
   validate_dna_sequence PyNone =
     Inl (Exn DnaSequenceError ''invalid sequence type (NoneType)'') \<and>
   is_valid_sequence ''tt'' \<and> \<not> is_valid_base (CHR ''N'') \<and>
   get_reverse_complement (PyStr ''ttNAU'') =
     Inl (Exn DnaSequenceError ''invalid base 'N' found at sequence position 3'')"
  using get_reverse_complement_failure
    [of PyNone "Exn DnaSequenceError ''invalid sequence type (NoneType)''"
      "''tt''" "CHR ''N''" "''AU''"]
  by (simp add: is_valid_sequence_def is_valid_base_def apostrophe_def str_int_def
      str_nat.simps digit_char_def)

text \<open>
  C8, as stated: the three failure kinds, among them the invalid-selector error of
  \<open>get_valid_bases\<close>, are all subtypes of one domain error category, the class
  \<^verbatim>\<open>Error\<close> of the module. It fails: the invalid-selector error is the built-in
  \<^verbatim>\<open>ValueError\<close>, which is no subclass of \<^verbatim>\<open>Error\<close>.
\<close>

theorem domain_error_category_counterexample:
  "get_valid_bases (Some (PyStr ''Whoops!'')) =
     Inl (Exn ValueError
       (''return_values must be either 'bases_only' or 'base_complements'' @
        [apostrophe])) \<and>
   \<not> issubclass
       (exn_class (Exn ValueError
         (''return_values must be either 'bases_only' or 'base_complements'' @
          [apostrophe])))
       Error"
  by (simp add: get_valid_bases_def apostrophe_def issubclass_def)

text \<open>
  C8, amended: every failure of \<open>validate_dna_sequence\<close> and of
  \<open>get_reverse_complement\<close>, the type error and the base error alike, is a
  \<^verbatim>\<open>DnaSequenceError\<close>, a subclass of the \<^verbatim>\<open>Error\<close> of the module. Every failure of
  \<open>get_valid_bases\<close> is the built-in \<^verbatim>\<open>ValueError\<close>, which is not a subclass of \<^verbatim>\<open>Error\<close>;
  the two classes have the built-in \<^verbatim>\<open>Exception\<close> as their common ancestor.
\<close>

theorem domain_error_category:
  "(validate_dna_sequence v = Inl e1 \<longrightarrow> exn_class e1 = DnaSequenceError) \<and>
   (get_reverse_complement v = Inl e2 \<longrightarrow> exn_class e2 = DnaSequenceError) \<and>
   issubclass DnaSequenceError Error \<and>
   (get_valid_bases arg = Inl e3 \<longrightarrow> exn_class e3 = ValueError) \<and>
   \<not> issubclass ValueError Error \<and>
   issubclass ValueError Exception \<and>
   issubclass Error Exception"
proof -
  have validate: "validate_dna_sequence v = Inl e1 \<longrightarrow> exn_class e1 = DnaSequenceError"
    by (rule impI) (rule validate_dna_sequence_Inl)
  have complement: "get_reverse_complement v = Inl e2 \<longrightarrow> exn_class e2 = DnaSequenceError"
    using get_reverse_complement_Inl [of v e2] validate_dna_sequence_Inl [of v e2]
    by blast
  have selector: "get_valid_bases arg = Inl e3 \<longrightarrow> exn_class e3 = ValueError"
    by (auto simp add: get_valid_bases_def Let_def split: if_splits)
  have "issubclass DnaSequenceError Error" "\<not> issubclass ValueError Error"
    "issubclass ValueError Exception" "issubclass Error Exception"
    by (simp_all add: issubclass_def)
  with validate complement selector show ?thesis
    by blast
qed

theorem domain_error_category_witness:
  "validate_dna_sequence (PyInt 1234) =
     Inl (Exn DnaSequenceError ''invalid sequence type (int)'') \<and>
   get_reverse_complement (PyInt 1234) =
     Inl (Exn DnaSequenceError ''invalid sequence type (int)'') \<and>
   get_valid_bases (Some (PyStr ''Whoops!'')) =
     Inl (Exn ValueError
       (''return_values must be either 'bases_only' or 'base_complements'' @
        [apostrophe])) \<and>
   exn_class (Exn DnaSequenceError ''invalid sequence type (int)'') = DnaSequenceError \<and>
   exn_class (Exn ValueError
       (''return_values must be either 'bases_only' or 'base_complements'' @
        [apostrophe])) = ValueError"
  using domain_error_category
    [of "PyInt 1234" "Exn DnaSequenceError ''invalid sequence type (int)''"
      "Exn DnaSequenceError ''invalid sequence type (int)''"
      "Some (PyStr ''Whoops!'')"
      "Exn ValueError
        (''return_values must be either 'bases_only' or 'base_complements'' @
         [apostrophe])"]
  by (simp add: validate_dna_sequence_other get_reverse_complement_fails
      get_valid_bases_def apostrophe_def)

text \<open>
  C9: the empty string is a valid sequence: \<open>validate_dna_sequence\<close> succeeds on it, and
  its reverse complement is the empty string.
\<close>

theorem empty_sequence:
  "validate_dna_sequence (PyStr []) = Inr () \<and> get_reverse_complement (PyStr []) = Inr []"
  by (simp add: validate_dna_sequence_str get_reverse_complement_str)

text \<open>
  C10: \<open>get_valid_bases\<close> called with no argument does what it does on \<^verbatim>\<open>"bases_only"\<close>:
  it returns the list of \<^verbatim>\<open>A\<close>, \<^verbatim>\<open>G\<close>, \<^verbatim>\<open>C\<close>, \<^verbatim>\<open>T\<close>.
\<close>

theorem get_valid_bases_no_argument:
  "get_valid_bases None = get_valid_bases (Some (PyStr ''bases_only'')) \<and>
   get_valid_bases None = Inr (BasesList [''A'', ''G'', ''C'', ''T''])"
  by (simp add: get_valid_bases_def)

end
